theory Spec2Isabelle
  imports Main "HOL-Library.Word"
begin

section \<open>ParameterLib: a typed layer over \<open>getopt_long\<close>\<close>

text \<open>
  A shallow embedding of \<^verbatim>\<open>ParmeterLib.h\<close> (namespace \<^verbatim>\<open>plib\<close>). The header has
  two parts: the \<^verbatim>\<open>converter\<close> overloads that turn the text of an option argument
  into a value, and \<^verbatim>\<open>processOptions\<close>, which builds the tables \<^verbatim>\<open>getopt_long\<close>
  wants, calls it in a loop and stores what it finds in the parameter vector.

  C++ exceptions and undefined behaviour are values of the type \<open>error\<close>; the
  parameter vector, which the code mutates in place, is passed in and returned; the
  \<^verbatim>\<open>while (true)\<close> loop is a partial function. The library primitives that the
  header calls but does not define (\<^verbatim>\<open>getopt_long\<close>, \<^verbatim>\<open>std::stof\<close>) are
  parameters of the model, so that what is proved holds for every such primitive.
\<close>

subsection \<open>Enumerations and errors\<close>

datatype HasArg = has_no_argument | has_optional_argument | has_requred_argument

text \<open>The values \<^verbatim>\<open>getopt.h\<close> gives the three enumerators.\<close>

fun HasArg_int :: "HasArg \<Rightarrow> int" where
  "HasArg_int has_no_argument = 0"
| "HasArg_int has_requred_argument = 1"
| "HasArg_int has_optional_argument = 2"

datatype ExitState = NoMoreArgs | PauseArgsProcessing

type_synonym options_result_t = "ExitState \<times> int"

text \<open>
  What a call can end with instead of a result: the three standard exception classes
  that occur, each with its \<^verbatim>\<open>what()\<close> text, and undefined behaviour.
\<close>

datatype error =
    invalid_argument string
  | out_of_range string
  | logic_error string
  | undefined_behaviour

subsection \<open>Text to value: the standard library's part\<close>

text \<open>
  \<^verbatim>\<open>isspace\<close> and \<^verbatim>\<open>isdigit\<close> in the C locale, and the value of a string of
  decimal digits.
\<close>

definition isspace :: "char \<Rightarrow> bool" where
  "isspace c = (c = CHR '' '' \<or> c = CHR 0x09 \<or> c = CHR 0x0A \<or> c = CHR 0x0B
     \<or> c = CHR 0x0C \<or> c = CHR 0x0D)"

definition isdigit :: "char \<Rightarrow> bool" where
  "isdigit c = (48 \<le> (of_char c :: nat) \<and> (of_char c :: nat) \<le> 57)"

definition digit_value :: "char \<Rightarrow> int" where
  "digit_value c = of_char c - 48"

definition decimal_value :: "string \<Rightarrow> int" where
  "decimal_value ds = foldl (\<lambda>a c. 10 * a + digit_value c) 0 ds"

definition strip_sign :: "string \<Rightarrow> bool \<times> string" where
  "strip_sign s =
     (case s of
        [] \<Rightarrow> (False, [])
      | c # r \<Rightarrow>
          if c = CHR ''-'' then (True, r)
          else if c = CHR ''+'' then (False, r)
          else (False, s))"

text \<open>
  \<^verbatim>\<open>std::stoi(str)\<close>, that is \<^verbatim>\<open>strtol\<close> in base 10: leading white space is
  skipped, a sign is optional, the digits that follow are the number and whatever comes
  after them is ignored. No digit at all throws \<^verbatim>\<open>std::invalid_argument\<close>, a number
  outside the range of \<^verbatim>\<open>int\<close> throws \<^verbatim>\<open>std::out_of_range\<close>.
\<close>

definition stoi :: "string \<Rightarrow> error + int" where
  "stoi str =
     (let (neg, s) = strip_sign (dropWhile isspace str);
          ds = takeWhile isdigit s
      in if ds = [] then Inl (invalid_argument ''stoi'')
         else
           let v = (if neg then - decimal_value ds else decimal_value ds)
           in if v < - (2 ^ 31) \<or> 2 ^ 31 - 1 < v then Inl (out_of_range ''stoi'')
              else Inr v)"

text \<open>
  \<^verbatim>\<open>std::stringstream ss(text); bool r; ss >> r;\<close> with the stream's default flags
  (\<^verbatim>\<open>skipws\<close>, \<^verbatim>\<open>dec\<close>, no \<^verbatim>\<open>boolalpha\<close>). The extraction reads an integer as
  for \<^verbatim>\<open>long\<close>: 0 is stored as \<^verbatim>\<open>false\<close>, 1 as \<^verbatim>\<open>true\<close>, any other number as
  \<^verbatim>\<open>true\<close> with \<^verbatim>\<open>failbit\<close>, and text with no digit as \<^verbatim>\<open>false\<close> with
  \<^verbatim>\<open>failbit\<close>. When nothing but white space is left the stream's sentry fails and
  \<^verbatim>\<open>r\<close> is not written at all: the result is \<open>None\<close>.
\<close>

definition extract_bool :: "string \<Rightarrow> bool option" where
  "extract_bool text =
     (let s0 = dropWhile isspace text
      in if s0 = [] then None
         else
           let (neg, s) = strip_sign s0;
               ds = takeWhile isdigit s
           in if ds = [] then Some False
              else Some (decimal_value ds \<noteq> 0))"

subsection \<open>The converters\<close>

text \<open>
  \<^verbatim>\<open>template <class T> T converter()\<close> returns \<^verbatim>\<open>static_cast<T>(0)\<close>; it is
  specialised for \<^verbatim>\<open>std::string\<close> (the empty string) and for \<^verbatim>\<open>bool\<close>
  (\<^verbatim>\<open>true\<close>). The instances for \<^verbatim>\<open>int\<close> and \<^verbatim>\<open>float\<close> are the generic one.
\<close>

definition converter0_bool :: bool where
  "converter0_bool = True"

definition converter0_int :: int where
  "converter0_int = 0"

definition converter0_float :: "'f::zero" where
  "converter0_float = 0"

definition converter0_string :: string where
  "converter0_string = []"

text \<open>
  \<^verbatim>\<open>template <class T> T converter(char *optarg)\<close>; a null pointer is \<open>None\<close>. The
  generic template is the one used for \<^verbatim>\<open>bool\<close>: it returns \<^verbatim>\<open>converter<bool>()\<close>
  for a null pointer and otherwise extracts a \<^verbatim>\<open>bool\<close> from a string stream, returning
  the variable \<^verbatim>\<open>r\<close> whether or not the extraction wrote it.
\<close>

definition converter_bool :: "string option \<Rightarrow> error + bool" where
  "converter_bool optarg =
     (case optarg of
        None \<Rightarrow> Inr converter0_bool
      | Some text \<Rightarrow>
          (case extract_bool text of
             None \<Rightarrow> Inl undefined_behaviour
           | Some r \<Rightarrow> Inr r))"

text \<open>The specialisation for \<^verbatim>\<open>int\<close>.\<close>

definition converter_int :: "string option \<Rightarrow> error + int" where
  "converter_int optarg =
     (case optarg of
        None \<Rightarrow> Inr 0
      | Some text \<Rightarrow> stoi text)"

text \<open>
  The specialisation for \<^verbatim>\<open>float\<close>. \<^verbatim>\<open>std::stof\<close> is the parameter \<open>stof\<close>: the
  model fixes neither the representation of \<^verbatim>\<open>float\<close> (the type \<open>'f\<close>) nor which
  texts \<^verbatim>\<open>std::stof\<close> accepts.
\<close>

definition converter_float :: "(string \<Rightarrow> error + 'f) \<Rightarrow> string option \<Rightarrow> error + 'f::zero" where
  "converter_float stof optarg =
     (case optarg of
        None \<Rightarrow> Inr 0
      | Some text \<Rightarrow> stof text)"

text \<open>
  The specialisation for \<^verbatim>\<open>std::string\<close> is \<^verbatim>\<open>return std::string(optarg);\<close> with no
  test of the pointer. Constructing a \<^verbatim>\<open>std::string\<close> from a null pointer is undefined
  behaviour (libstdc++ throws \<^verbatim>\<open>std::logic_error\<close>).
\<close>

definition converter_string :: "string option \<Rightarrow> error + string" where
  "converter_string optarg =
     (case optarg of
        None \<Rightarrow> Inl undefined_behaviour
      | Some text \<Rightarrow> Inr text)"

subsection \<open>Parameters\<close>

text \<open>
  \<^verbatim>\<open>struct parameter_t<T>\<close>. The counter \<^verbatim>\<open>l_seen\<close> is a 32-bit \<^verbatim>\<open>int\<close> that the
  code increments: a 32-bit word, whose increment wraps around where that of the C++
  \<^verbatim>\<open>int\<close> overflows. \<^verbatim>\<open>l_val\<close> and \<^verbatim>\<open>l_flag\<close> are only copied and compared,
  and are integers.
\<close>

record 'v parameter_t =
  l_name :: string
  l_has_arg :: HasArg
  l_val :: int
  l_flag :: int
  l_seen :: "32 word"
  l_incomplete_conv :: bool
  l_value :: 'v

text \<open>The constructor: \<^verbatim>\<open>l_flag()\<close>, \<^verbatim>\<open>l_seen(0)\<close>, \<^verbatim>\<open>l_incomplete_conv(false)\<close>, \<^verbatim>\<open>l_value()\<close>.\<close>

definition new_parameter :: "'v \<Rightarrow> string \<Rightarrow> HasArg \<Rightarrow> int \<Rightarrow> 'v parameter_t" where
  "new_parameter v0 nm ha v =
     \<lparr>l_name = nm, l_has_arg = ha, l_val = v, l_flag = 0, l_seen = 0,
      l_incomplete_conv = False, l_value = v0\<rparr>"

text \<open>
  \<^verbatim>\<open>p_parameter_t\<close>, the variant over the four parameter types, and the four
  constructors \<^verbatim>\<open>p_bool{...}\<close>, \<^verbatim>\<open>p_int{...}\<close>, \<^verbatim>\<open>p_float{...}\<close>, \<^verbatim>\<open>p_string{...}\<close>
  with their value-initialised \<^verbatim>\<open>l_value\<close>.
\<close>

datatype 'f p_parameter_t =
    p_bool "bool parameter_t"
  | p_int "int parameter_t"
  | p_float "'f parameter_t"
  | p_string "string parameter_t"

definition new_p_bool :: "string \<Rightarrow> HasArg \<Rightarrow> int \<Rightarrow> 'f p_parameter_t" where
  "new_p_bool nm ha v = p_bool (new_parameter False nm ha v)"

definition new_p_int :: "string \<Rightarrow> HasArg \<Rightarrow> int \<Rightarrow> 'f p_parameter_t" where
  "new_p_int nm ha v = p_int (new_parameter 0 nm ha v)"

definition new_p_float :: "string \<Rightarrow> HasArg \<Rightarrow> int \<Rightarrow> 'f::zero p_parameter_t" where
  "new_p_float nm ha v = p_float (new_parameter 0 nm ha v)"

definition new_p_string :: "string \<Rightarrow> HasArg \<Rightarrow> int \<Rightarrow> 'f p_parameter_t" where
  "new_p_string nm ha v = p_string (new_parameter [] nm ha v)"

text \<open>Reading a field through \<^verbatim>\<open>std::visit\<close>, whatever the alternative.\<close>

fun arg_l_name :: "'f p_parameter_t \<Rightarrow> string" where
  "arg_l_name (p_bool a) = l_name a"
| "arg_l_name (p_int a) = l_name a"
| "arg_l_name (p_float a) = l_name a"
| "arg_l_name (p_string a) = l_name a"

fun arg_l_has_arg :: "'f p_parameter_t \<Rightarrow> HasArg" where
  "arg_l_has_arg (p_bool a) = l_has_arg a"
| "arg_l_has_arg (p_int a) = l_has_arg a"
| "arg_l_has_arg (p_float a) = l_has_arg a"
| "arg_l_has_arg (p_string a) = l_has_arg a"

fun arg_l_val :: "'f p_parameter_t \<Rightarrow> int" where
  "arg_l_val (p_bool a) = l_val a"
| "arg_l_val (p_int a) = l_val a"
| "arg_l_val (p_float a) = l_val a"
| "arg_l_val (p_string a) = l_val a"

fun arg_l_flag :: "'f p_parameter_t \<Rightarrow> int" where
  "arg_l_flag (p_bool a) = l_flag a"
| "arg_l_flag (p_int a) = l_flag a"
| "arg_l_flag (p_float a) = l_flag a"
| "arg_l_flag (p_string a) = l_flag a"

fun arg_l_seen :: "'f p_parameter_t \<Rightarrow> 32 word" where
  "arg_l_seen (p_bool a) = l_seen a"
| "arg_l_seen (p_int a) = l_seen a"
| "arg_l_seen (p_float a) = l_seen a"
| "arg_l_seen (p_string a) = l_seen a"

fun arg_l_incomplete_conv :: "'f p_parameter_t \<Rightarrow> bool" where
  "arg_l_incomplete_conv (p_bool a) = l_incomplete_conv a"
| "arg_l_incomplete_conv (p_int a) = l_incomplete_conv a"
| "arg_l_incomplete_conv (p_float a) = l_incomplete_conv a"
| "arg_l_incomplete_conv (p_string a) = l_incomplete_conv a"

subsection \<open>The interface of \<^verbatim>\<open>getopt_long\<close>\<close>

text \<open>
  \<^verbatim>\<open>struct option\<close> of \<^verbatim>\<open>getopt.h\<close>. The name of the entry that ends the table is a
  null pointer (\<open>None\<close>), as is every \<^verbatim>\<open>flag\<close> this code stores.
\<close>

record struct_option =
  name :: "string option"
  has_arg :: int
  flag :: "nat option"
  val :: int

text \<open>
  What one call \<^verbatim>\<open>getopt_long(argc, argv, optstring, longopts, &longindex)\<close> leaves
  behind: its return value, the globals \<^verbatim>\<open>optarg\<close> and \<^verbatim>\<open>optind\<close>, the value it
  wrote through \<^verbatim>\<open>longindex\<close> (\<open>None\<close> when it wrote nothing), the argument vector,
  which it may reorder, and its own state, of a type \<open>'s\<close> the model leaves open.
\<close>

record 's getopt_result =
  ret :: int
  optarg :: "string option"
  optind :: int
  longindex :: "int option"
  argv_after :: "string list"
  scanner :: 's

type_synonym 's getopt_long_t =
  "'s \<Rightarrow> int \<Rightarrow> string list \<Rightarrow> string \<Rightarrow> struct_option list \<Rightarrow> 's getopt_result"

subsection \<open>Building the tables (lines 186 to 216)\<close>

text \<open>\<^verbatim>\<open>c_str()\<close>: the characters before the first NUL.\<close>

definition c_str :: "string \<Rightarrow> string" where
  "c_str s = takeWhile (\<lambda>c. c \<noteq> CHR 0x00) s"

text \<open>
  The body of the \<^verbatim>\<open>for\<close> loop for one parameter: the \<^verbatim>\<open>struct option\<close> it fills,
  the character it stores in \<^verbatim>\<open>small_opts\<close>, and what it appends to the stream \<^verbatim>\<open>ss\<close>.
\<close>

definition option_entry :: "'f p_parameter_t \<Rightarrow> struct_option" where
  "option_entry arg =
     \<lparr>name = Some (c_str (arg_l_name arg)), has_arg = HasArg_int (arg_l_has_arg arg),
      flag = None, val = arg_l_val arg\<rparr>"

definition small_opt :: "'f p_parameter_t \<Rightarrow> char" where
  "small_opt arg = char_of (arg_l_val arg)"

definition ss_piece :: "'f p_parameter_t \<Rightarrow> string" where
  "ss_piece arg =
     small_opt arg # (if arg_l_has_arg arg \<noteq> has_no_argument then '':'' else [])"

text \<open>The loop over the parameters: the three tables, in the order of the vector.\<close>

fun build_tables :: "'f p_parameter_t list \<Rightarrow> struct_option list \<times> string \<times> string" where
  "build_tables [] = ([], [], [])"
| "build_tables (arg # rest) =
     (case build_tables rest of
        (options, small_opts, ss) \<Rightarrow>
          (option_entry arg # options, small_opt arg # small_opts, ss_piece arg @ ss))"

definition terminator :: struct_option where
  "terminator = \<lparr>name = None, has_arg = 0, flag = None, val = 0\<rparr>"

definition long_options :: "'f p_parameter_t list \<Rightarrow> struct_option list" where
  "long_options parameters = fst (build_tables parameters) @ [terminator]"

definition small_opts_of :: "'f p_parameter_t list \<Rightarrow> string" where
  "small_opts_of parameters = fst (snd (build_tables parameters))"

definition short_options_string :: "'f p_parameter_t list \<Rightarrow> string" where
  "short_options_string parameters = snd (snd (build_tables parameters))"

subsection \<open>One pass of the scanning loop (lines 221 to 273)\<close>

text \<open>
  The generic lambda of lines 261 to 268 on one alternative: the counter is incremented
  first, then the conversion runs and, if it returns, its value is stored. The second
  component is the exception the conversion threw, if any.
\<close>

definition store :: "(string option \<Rightarrow> error + 'v) \<Rightarrow> string option \<Rightarrow> 'v parameter_t
    \<Rightarrow> 'v parameter_t \<times> error option" where
  "store convert oa arg =
     (let arg1 = arg\<lparr>l_seen := l_seen arg + 1\<rparr>
      in case convert (if l_has_arg arg1 \<noteq> has_no_argument then oa else None) of
           Inl e \<Rightarrow> (arg1, Some e)
         | Inr v \<Rightarrow> (arg1\<lparr>l_value := v\<rparr>, None))"

fun visit_store :: "(string \<Rightarrow> error + 'f) \<Rightarrow> string option \<Rightarrow> 'f::zero p_parameter_t
    \<Rightarrow> 'f p_parameter_t \<times> error option" where
  "visit_store stof oa (p_bool a) = map_prod p_bool id (store converter_bool oa a)"
| "visit_store stof oa (p_int a) = map_prod p_int id (store converter_int oa a)"
| "visit_store stof oa (p_float a) = map_prod p_float id (store (converter_float stof) oa a)"
| "visit_store stof oa (p_string a) = map_prod p_string id (store converter_string oa a)"

text \<open>
  \<^verbatim>\<open>std::find(so_begin, so_end, ch) - so_begin\<close>: the index of the first element equal
  to \<open>ch\<close>, and the length when there is none.
\<close>

fun find_index :: "string \<Rightarrow> char \<Rightarrow> nat" where
  "find_index [] ch = 0"
| "find_index (x # xs) ch = (if x = ch then 0 else Suc (find_index xs ch))"

definition not_defined_message :: "int \<Rightarrow> string" where
  "not_defined_message c =
     ''getopt_long returned short option '' @ [CHR 0x27, char_of c, CHR 0x27]
       @ '' event though it is not defined.''"

definition flag_message :: string where
  "flag_message = ''This implementation should not set '' @ [CHR 0x27] @ ''flag''
     @ [CHR 0x27] @ ''.''"

text \<open>
  Lines 238 to 255: which parameter a match belongs to. \<open>option_index\<close> starts as
  the size of the vector (\<open>psize\<close>) and \<^verbatim>\<open>getopt_long\<close> overwrites it for a long option; when
  it still is the size, the returned character is looked up in \<^verbatim>\<open>small_opts\<close>.
\<close>

definition resolve :: "int \<Rightarrow> string \<Rightarrow> 's getopt_result \<Rightarrow> error + int" where
  "resolve psize small_opts g =
     (let option_index = (case longindex g of None \<Rightarrow> psize | Some i \<Rightarrow> i)
      in if option_index = psize then
           (let ptr = find_index small_opts (char_of (ret g))
            in if ptr \<noteq> length small_opts then Inr (int ptr)
               else Inl (invalid_argument (not_defined_message (ret g))))
         else Inr option_index)"

text \<open>The variables that live across the passes of the loop.\<close>

record ('f, 's) state =
  parameters :: "'f p_parameter_t list"
  argv :: "string list"
  getopt_state :: 's

datatype ('f, 's) step =
    Done "error + options_result_t" "('f, 's) state"
  | Continue "('f, 's) state"

text \<open>
  One pass. A pass ends the call (\<open>Done\<close>) with the result pair when \<^verbatim>\<open>getopt_long\<close>
  returns \<open>-1\<close>, or with an exception; otherwise the loop goes on. Indexing the vector
  outside its bounds, which the code does not check, is undefined behaviour.
\<close>

definition loop_body :: "'s getopt_long_t \<Rightarrow> (string \<Rightarrow> error + 'f) \<Rightarrow> int \<Rightarrow> string
    \<Rightarrow> struct_option list \<Rightarrow> string \<Rightarrow> ('f::zero, 's) state \<Rightarrow> ('f, 's) step" where
  "loop_body getopt_long stof argc optstring options small_opts st =
     (let psize = int (length (parameters st));
          g = getopt_long (getopt_state st) argc (argv st) optstring options;
          st1 = st\<lparr>argv := argv_after g, getopt_state := scanner g\<rparr>;
          c = ret g
      in if c = - 1 then Done (Inr (NoMoreArgs, optind g)) st1
         else if c > 0 then
           (case resolve psize small_opts g of
              Inl e \<Rightarrow> Done (Inl e) st1
            | Inr i \<Rightarrow>
                if 0 \<le> i \<and> i < psize then
                  (case visit_store stof (optarg g) (parameters st ! nat i) of
                     (arg, None) \<Rightarrow>
                       Continue (st1\<lparr>parameters := (parameters st)[nat i := arg]\<rparr>)
                   | (arg, Some e) \<Rightarrow>
                       Done (Inl e) (st1\<lparr>parameters := (parameters st)[nat i := arg]\<rparr>))
                else Done (Inl undefined_behaviour) st1)
         else Done (Inl (logic_error flag_message)) st1)"

subsection \<open>The loop and \<^verbatim>\<open>processOptions\<close>\<close>

text \<open>
  \<^verbatim>\<open>while (true)\<close>: the loop returns only when a pass ends the call; a scanner that
  never returns \<open>-1\<close> and never makes a pass fail keeps it running, and then the value
  is \<open>None\<close>.
\<close>

partial_function (option) scan_loop :: "'s getopt_long_t \<Rightarrow> (string \<Rightarrow> error + 'f) \<Rightarrow> int
    \<Rightarrow> string \<Rightarrow> struct_option list \<Rightarrow> string \<Rightarrow> ('f::zero, 's) state
    \<Rightarrow> ((error + options_result_t) \<times> ('f, 's) state) option" where
  "scan_loop getopt_long stof argc optstring options small_opts st =
     (case loop_body getopt_long stof argc optstring options small_opts st of
        Done r st' \<Rightarrow> Some (r, st')
      | Continue st' \<Rightarrow> scan_loop getopt_long stof argc optstring options small_opts st')"

declare scan_loop.simps [code]

text \<open>
  \<^verbatim>\<open>processOptions(argc, argv, parameters)\<close>, with the state of the scanner at the
  time of the call as a further argument. The result holds what the call returned or
  threw, and the parameter vector, the argument vector and the scanner as it left them.
\<close>

definition processOptions :: "'s getopt_long_t \<Rightarrow> (string \<Rightarrow> error + 'f) \<Rightarrow> int
    \<Rightarrow> string list \<Rightarrow> 'f::zero p_parameter_t list \<Rightarrow> 's
    \<Rightarrow> ((error + options_result_t) \<times> ('f, 's) state) option" where
  "processOptions getopt_long stof argc argv0 parameters0 s0 =
     scan_loop getopt_long stof argc (c_str (short_options_string parameters0))
       (long_options parameters0) (small_opts_of parameters0)
       \<lparr>parameters = parameters0, argv = argv0, getopt_state = s0\<rparr>"

text \<open>The first \<open>k\<close> passes of the loop, for running it on a given input.\<close>

fun passes :: "nat \<Rightarrow> 's getopt_long_t \<Rightarrow> (string \<Rightarrow> error + 'f) \<Rightarrow> int \<Rightarrow> string
    \<Rightarrow> struct_option list \<Rightarrow> string \<Rightarrow> ('f::zero, 's) state \<Rightarrow> ('f, 's) step" where
  "passes 0 getopt_long stof argc optstring options small_opts st = Continue st"
| "passes (Suc k) getopt_long stof argc optstring options small_opts st =
     (case loop_body getopt_long stof argc optstring options small_opts st of
        Done r st' \<Rightarrow> Done r st'
      | Continue st' \<Rightarrow> passes k getopt_long stof argc optstring options small_opts st')"

subsection \<open>A reference scanner\<close>

text \<open>
  The scanner the header is compiled against is the C library's. For running
  \<open>processOptions\<close> on given argument vectors, \<open>getopt_long_ref\<close> follows the
  algorithm of the GNU C library's \<^verbatim>\<open>getopt_long\<close>: permutation of the argument
  vector (unless the option string starts with \<^verbatim>\<open>+\<close> or \<^verbatim>\<open>-\<close>), the \<^verbatim>\<open>--\<close>
  marker, long options with \<^verbatim>\<open>=\<close> arguments and unambiguous abbreviations, and
  clusters of short options. It leaves out the messages on \<^verbatim>\<open>stderr\<close>, \<^verbatim>\<open>optopt\<close>,
  the environment variable \<^verbatim>\<open>POSIXLY_CORRECT\<close> (taken as unset) and the \<^verbatim>\<open>W;\<close>
  convention, and it expects \<open>argv\<close> to hold \<open>argc\<close> strings. Nothing that is proved
  for every scanner depends on it.
\<close>

datatype getopt_ordering = REQUIRE_ORDER | PERMUTE | RETURN_IN_ORDER

record getopt_data =
  g_optind :: nat
  nextchar :: string
  first_nonopt :: nat
  last_nonopt :: nat
  initialized :: bool
  ordering :: getopt_ordering

text \<open>The state of the library when the process starts: \<^verbatim>\<open>optind\<close> is 1.\<close>

definition getopt_start :: getopt_data where
  "getopt_start =
     \<lparr>g_optind = 1, nextchar = [], first_nonopt = 0, last_nonopt = 0,
      initialized = False, ordering = PERMUTE\<rparr>"

definition getopt_initialize :: "string \<Rightarrow> getopt_data \<Rightarrow> getopt_data" where
  "getopt_initialize optstring d =
     (let oi = (if g_optind d = 0 then 1 else g_optind d)
      in d\<lparr>g_optind := oi, nextchar := [], first_nonopt := oi, last_nonopt := oi,
           initialized := True,
           ordering :=
             (if take 1 optstring = ''-'' then RETURN_IN_ORDER
              else if take 1 optstring = ''+'' then REQUIRE_ORDER
              else PERMUTE)\<rparr>)"

definition strip_mode :: "string \<Rightarrow> string" where
  "strip_mode optstring =
     (if take 1 optstring = ''-'' \<or> take 1 optstring = ''+'' then drop 1 optstring
      else optstring)"

text \<open>A \<^verbatim>\<open>char\<close> as the \<^verbatim>\<open>int\<close> that \<^verbatim>\<open>getopt_long\<close> returns (\<^verbatim>\<open>char\<close> is signed).\<close>

definition char_int :: "char \<Rightarrow> int" where
  "char_int c = (if (of_char c :: int) < 128 then of_char c else of_char c - 256)"

definition getopt_return :: "int \<Rightarrow> string option \<Rightarrow> int option \<Rightarrow> string list
    \<Rightarrow> getopt_data \<Rightarrow> getopt_data getopt_result" where
  "getopt_return r oa li av d =
     \<lparr>ret = r, optarg = oa, optind = int (g_optind d), longindex = li,
      argv_after = av, scanner = d\<rparr>"

text \<open>
  \<^verbatim>\<open>exchange\<close>: the non-options skipped so far, \<open>[first_nonopt, last_nonopt)\<close>, change
  places with the options after them, \<open>[last_nonopt, optind)\<close>.
\<close>

definition exchange :: "string list \<Rightarrow> getopt_data \<Rightarrow> string list \<times> getopt_data" where
  "exchange av d =
     (let bottom = first_nonopt d; middle = last_nonopt d; top = g_optind d
      in (take bottom av @ take (top - middle) (drop middle av)
            @ take (middle - bottom) (drop bottom av) @ drop top av,
          d\<lparr>first_nonopt := bottom + (top - middle), last_nonopt := top\<rparr>))"

text \<open>\<^verbatim>\<open>NONOPTION_P\<close>: the element does not start with \<^verbatim>\<open>-\<close>, or it is \<^verbatim>\<open>-\<close> alone.\<close>

definition nonoption :: "string \<Rightarrow> bool" where
  "nonoption a = (case a of [] \<Rightarrow> True | c # r \<Rightarrow> c \<noteq> CHR ''-'' \<or> r = [])"

fun first_index :: "('a \<Rightarrow> bool) \<Rightarrow> 'a list \<Rightarrow> nat option" where
  "first_index P [] = None"
| "first_index P (x # xs) =
     (if P x then Some 0 else map_option Suc (first_index P xs))"

definition name_is :: "string \<Rightarrow> struct_option \<Rightarrow> bool" where
  "name_is nm p = (case name p of None \<Rightarrow> False | Some n \<Rightarrow> n = nm)"

definition name_starts :: "string \<Rightarrow> struct_option \<Rightarrow> bool" where
  "name_starts nm p = (case name p of None \<Rightarrow> False | Some n \<Rightarrow> take (length nm) n = nm)"

definition same_action :: "struct_option \<Rightarrow> struct_option \<Rightarrow> bool" where
  "same_action p q = (has_arg p = has_arg q \<and> flag p = flag q \<and> val p = val q)"

datatype long_match = Found nat | Ambiguous | NotFound

text \<open>
  The search of \<^verbatim>\<open>process_long_option\<close>: an exact match first, then the first entry
  the text abbreviates, unless a later such entry does something else.
\<close>

definition find_long :: "string \<Rightarrow> struct_option list \<Rightarrow> long_match" where
  "find_long nm longopts =
     (let table = takeWhile (\<lambda>p. name p \<noteq> None) longopts
      in case first_index (name_is nm) table of
           Some i \<Rightarrow> Found i
         | None \<Rightarrow>
             (case first_index (name_starts nm) table of
                None \<Rightarrow> NotFound
              | Some i \<Rightarrow>
                  if list_all (same_action (table ! i)) (filter (name_starts nm) table)
                  then Found i else Ambiguous))"

definition process_long_option :: "nat \<Rightarrow> string list \<Rightarrow> string \<Rightarrow> struct_option list
    \<Rightarrow> getopt_data \<Rightarrow> getopt_data getopt_result" where
  "process_long_option argc av optstring longopts d =
     (let nm = takeWhile (\<lambda>c. c \<noteq> CHR ''='') (nextchar d);
          nameend = dropWhile (\<lambda>c. c \<noteq> CHR ''='') (nextchar d);
          d1 = d\<lparr>g_optind := Suc (g_optind d), nextchar := []\<rparr>;
          missing = (if take 1 optstring = '':'' then char_int CHR '':'' else char_int CHR ''?'')
      in case find_long nm longopts of
           NotFound \<Rightarrow> getopt_return (char_int CHR ''?'') None None av d1
         | Ambiguous \<Rightarrow> getopt_return (char_int CHR ''?'') None None av d1
         | Found i \<Rightarrow>
             (let pfound = longopts ! i;
                  r = (if flag pfound \<noteq> None then 0 else val pfound)
              in if nameend \<noteq> [] then
                   (if has_arg pfound \<noteq> 0
                    then getopt_return r (Some (tl nameend)) (Some (int i)) av d1
                    else getopt_return (char_int CHR ''?'') None None av d1)
                 else if has_arg pfound = 1 then
                   (if g_optind d1 < argc
                    then getopt_return r (Some (av ! g_optind d1)) (Some (int i)) av
                           (d1\<lparr>g_optind := Suc (g_optind d1)\<rparr>)
                    else getopt_return missing None None av d1)
                 else getopt_return r None (Some (int i)) av d1))"

text \<open>The next character of a cluster of short options; \<open>nextchar d\<close> is not empty.\<close>

definition short_option :: "nat \<Rightarrow> string list \<Rightarrow> string \<Rightarrow> getopt_data
    \<Rightarrow> getopt_data getopt_result" where
  "short_option argc av optstring d =
     (let c = hd (nextchar d);
          nc = tl (nextchar d);
          d1 = d\<lparr>nextchar := nc,
                 g_optind := (if nc = [] then Suc (g_optind d) else g_optind d)\<rparr>;
          d2 = d1\<lparr>nextchar := []\<rparr>;
          temp = dropWhile (\<lambda>x. x \<noteq> c) optstring
      in if temp = [] \<or> c = CHR '':'' \<or> c = CHR '';''
         then getopt_return (char_int CHR ''?'') None None av d1
         else if take 1 (drop 1 temp) = '':'' then
           (if take 1 (drop 2 temp) = '':'' then
              (if nc \<noteq> []
               then getopt_return (char_int c) (Some nc) None av
                      (d2\<lparr>g_optind := Suc (g_optind d1)\<rparr>)
               else getopt_return (char_int c) None None av d2)
            else
              (if nc \<noteq> []
               then getopt_return (char_int c) (Some nc) None av
                      (d2\<lparr>g_optind := Suc (g_optind d1)\<rparr>)
               else if g_optind d1 = argc
               then getopt_return
                      (if take 1 optstring = '':'' then char_int CHR '':''
                       else char_int CHR ''?'') None None av d2
               else getopt_return (char_int c) (Some (av ! g_optind d1)) None av
                      (d2\<lparr>g_optind := Suc (g_optind d1)\<rparr>)))
         else getopt_return (char_int c) None None av d1)"

text \<open>Moving on to the next element of \<open>argv\<close>, when no cluster is being read.\<close>

definition permute_step :: "nat \<Rightarrow> string list \<Rightarrow> getopt_data \<Rightarrow> string list \<times> getopt_data" where
  "permute_step argc av d =
     (case
        (if first_nonopt d \<noteq> last_nonopt d \<and> last_nonopt d \<noteq> g_optind d then exchange av d
         else if last_nonopt d \<noteq> g_optind d then (av, d\<lparr>first_nonopt := g_optind d\<rparr>)
         else (av, d))
      of (av1, d1) \<Rightarrow>
        (let k = length (takeWhile nonoption (take (argc - g_optind d1) (drop (g_optind d1) av1)))
         in (av1, d1\<lparr>g_optind := g_optind d1 + k, last_nonopt := g_optind d1 + k\<rparr>)))"

definition end_marker :: "nat \<Rightarrow> string list \<Rightarrow> getopt_data \<Rightarrow> string list \<times> getopt_data" where
  "end_marker argc av d =
     (let d1 = d\<lparr>g_optind := Suc (g_optind d)\<rparr>
      in case
           (if first_nonopt d1 \<noteq> last_nonopt d1 \<and> last_nonopt d1 \<noteq> g_optind d1
            then exchange av d1
            else if first_nonopt d1 = last_nonopt d1
            then (av, d1\<lparr>first_nonopt := g_optind d1\<rparr>)
            else (av, d1))
         of (av2, d2) \<Rightarrow> (av2, d2\<lparr>last_nonopt := argc, g_optind := argc\<rparr>))"

definition next_element :: "nat \<Rightarrow> string list \<Rightarrow> string \<Rightarrow> struct_option list
    \<Rightarrow> getopt_data \<Rightarrow> getopt_data getopt_result" where
  "next_element argc av0 optstring longopts d0 =
     (let d = d0\<lparr>last_nonopt := min (last_nonopt d0) (g_optind d0),
                 first_nonopt := min (first_nonopt d0) (g_optind d0)\<rparr>
      in case (if ordering d = PERMUTE then permute_step argc av0 d else (av0, d)) of
           (av1, d1) \<Rightarrow>
             (case
                (if g_optind d1 \<noteq> argc \<and> av1 ! g_optind d1 = ''--''
                 then end_marker argc av1 d1 else (av1, d1))
              of (av, d2) \<Rightarrow>
                if g_optind d2 = argc then
                  getopt_return (- 1) None None av
                    (if first_nonopt d2 \<noteq> last_nonopt d2
                     then d2\<lparr>g_optind := first_nonopt d2\<rparr> else d2)
                else if nonoption (av ! g_optind d2) then
                  (if ordering d2 = REQUIRE_ORDER then getopt_return (- 1) None None av d2
                   else getopt_return 1 (Some (av ! g_optind d2)) None av
                          (d2\<lparr>g_optind := Suc (g_optind d2)\<rparr>))
                else if take 2 (av ! g_optind d2) = ''--'' then
                  process_long_option argc av optstring longopts
                    (d2\<lparr>nextchar := drop 2 (av ! g_optind d2)\<rparr>)
                else
                  short_option argc av optstring
                    (d2\<lparr>nextchar := drop 1 (av ! g_optind d2)\<rparr>)))"

definition getopt_long_ref :: "getopt_data getopt_long_t" where
  "getopt_long_ref d0 argc av optstring0 longopts =
     (if argc < 1 then getopt_return (- 1) None None av d0
      else
        (let d = (if g_optind d0 = 0 \<or> \<not> initialized d0
                  then getopt_initialize optstring0 d0 else d0);
             optstring = strip_mode optstring0
         in if nextchar d \<noteq> [] then short_option (nat argc) av optstring d
            else next_element (nat argc) av optstring longopts d))"

subsection \<open>The option table of \<^verbatim>\<open>main.cpp\<close>\<close>

definition parameter :: "'f::zero p_parameter_t list" where
  "parameter =
     [new_p_bool ''enable'' has_no_argument (of_char CHR ''e''),
      new_p_int ''start'' has_requred_argument (of_char CHR ''s''),
      new_p_float ''pi'' has_requred_argument (of_char CHR ''p''),
      new_p_string ''file'' has_requred_argument (of_char CHR ''f'')]"

subsection \<open>Notions for stating the properties\<close>

text \<open>
  The state of a call of \<open>processOptions\<close> after its first \<open>k\<close> passes, and the call
  of \<^verbatim>\<open>getopt_long\<close> that its next pass makes.
\<close>

definition after_passes :: "nat \<Rightarrow> 's getopt_long_t \<Rightarrow> (string \<Rightarrow> error + 'f) \<Rightarrow> int
    \<Rightarrow> string list \<Rightarrow> 'f::zero p_parameter_t list \<Rightarrow> 's \<Rightarrow> ('f, 's) step" where
  "after_passes k getopt_long stof argc argv0 parameters0 s0 =
     passes k getopt_long stof argc (c_str (short_options_string parameters0))
       (long_options parameters0) (small_opts_of parameters0)
       \<lparr>parameters = parameters0, argv = argv0, getopt_state = s0\<rparr>"

definition next_call :: "'s getopt_long_t \<Rightarrow> int \<Rightarrow> 'f p_parameter_t list \<Rightarrow> ('f, 's) state
    \<Rightarrow> 's getopt_result" where
  "next_call getopt_long argc parameters0 st =
     getopt_long (getopt_state st) argc (argv st)
       (c_str (short_options_string parameters0)) (long_options parameters0)"

fun state_of :: "('f, 's) step \<Rightarrow> ('f, 's) state" where
  "state_of (Done r st) = st"
| "state_of (Continue st) = st"

text \<open>
  The alternative a variant holds (\<^verbatim>\<open>index()\<close>); the fields of a parameter that
  \<open>processOptions\<close> never assigns, together with that alternative; its
  \<^verbatim>\<open>l_value\<close> as a value of one of the four types; and the member function
  \<^verbatim>\<open>convert\<close> of the alternative.
\<close>

fun arg_index :: "'f p_parameter_t \<Rightarrow> nat" where
  "arg_index (p_bool a) = 0"
| "arg_index (p_int a) = 1"
| "arg_index (p_float a) = 2"
| "arg_index (p_string a) = 3"

definition arg_frame :: "'f p_parameter_t \<Rightarrow> nat \<times> string \<times> HasArg \<times> int \<times> int \<times> bool" where
  "arg_frame arg =
     (arg_index arg, arg_l_name arg, arg_l_has_arg arg, arg_l_val arg, arg_l_flag arg,
      arg_l_incomplete_conv arg)"

datatype 'f value_t = v_bool bool | v_int int | v_float 'f | v_string string

fun arg_l_value :: "'f p_parameter_t \<Rightarrow> 'f value_t" where
  "arg_l_value (p_bool a) = v_bool (l_value a)"
| "arg_l_value (p_int a) = v_int (l_value a)"
| "arg_l_value (p_float a) = v_float (l_value a)"
| "arg_l_value (p_string a) = v_string (l_value a)"

fun arg_convert :: "(string \<Rightarrow> error + 'f) \<Rightarrow> string option \<Rightarrow> 'f::zero p_parameter_t
    \<Rightarrow> error + 'f value_t" where
  "arg_convert stof oa (p_bool a) = map_sum id v_bool (converter_bool oa)"
| "arg_convert stof oa (p_int a) = map_sum id v_int (converter_int oa)"
| "arg_convert stof oa (p_float a) = map_sum id v_float (converter_float stof oa)"
| "arg_convert stof oa (p_string a) = map_sum id v_string (converter_string oa)"




text \<open>
  Two stand-ins for running the model on examples: a \<^verbatim>\<open>std::stof\<close> that throws on
  every text, for examples that convert no \<^verbatim>\<open>float\<close>, and a scanner that returns the
  value \<open>c\<close> on every call, whatever the argument vector holds.
\<close>

lemmas text_defs = isspace_def isdigit_def digit_value_def decimal_value_def strip_sign_def

definition no_stof :: "string \<Rightarrow> error + int" where
  "no_stof text = Inl (invalid_argument ''stof'')"

definition stray_scanner :: "int \<Rightarrow> unit getopt_long_t" where
  "stray_scanner c s argc av optstring longopts =
     \<lparr>ret = c, optarg = None, optind = 1, longindex = None, argv_after = av, scanner = s\<rparr>"

section \<open>The conversion layer\<close>

subsection \<open>Reading text\<close>

lemma dropWhile_isspace:
  "list_all isspace ws \<Longrightarrow> \<not> isspace c \<Longrightarrow> dropWhile isspace (ws @ c # r) = c # r"
  by (induction ws) auto

lemma takeWhile_isdigit:
  "list_all isdigit ds \<Longrightarrow> takeWhile isdigit rest = [] \<Longrightarrow> takeWhile isdigit (ds @ rest) = ds"
  by (induction ds) auto

lemma isdigit_not_isspace: "isdigit c \<Longrightarrow> \<not> isspace c"
  by (auto simp: isdigit_def isspace_def)

lemma isdigit_not_sign: "isdigit c \<Longrightarrow> c \<noteq> CHR ''-'' \<and> c \<noteq> CHR ''+''"
  by (auto simp: isdigit_def)

lemma digit_value_0: "isdigit c \<Longrightarrow> digit_value c = 0 \<longleftrightarrow> c = CHR ''0''"
proof -
  have "(of_char c :: int) = 48 \<longleftrightarrow> (of_char c :: int) = of_char CHR ''0''" by simp
  also have "\<dots> \<longleftrightarrow> c = CHR ''0''" by (simp only: of_char_eq_iff)
  finally show ?thesis by (simp add: digit_value_def)
qed

lemma digit_value_nonneg: "isdigit c \<Longrightarrow> 0 \<le> digit_value c"
proof -
  assume "isdigit c"
  then have "48 \<le> int (of_char c)" by (simp add: isdigit_def)
  then show ?thesis by (simp add: digit_value_def of_nat_of_char)
qed

lemma foldl_decimal_zero:
  "list_all isdigit ds \<Longrightarrow> 0 \<le> a \<Longrightarrow>
   0 \<le> foldl (\<lambda>a c. 10 * a + digit_value c) a ds \<and>
   (foldl (\<lambda>a c. 10 * a + digit_value c) a ds = 0
      \<longleftrightarrow> a = 0 \<and> list_all (\<lambda>d. d = CHR ''0'') ds)"
proof (induction ds arbitrary: a)
  case Nil
  then show ?case by simp
next
  case (Cons d ds)
  have d: "0 \<le> digit_value d" "digit_value d = 0 \<longleftrightarrow> d = CHR ''0''"
    using Cons.prems by (simp_all add: digit_value_nonneg digit_value_0)
  have "0 \<le> 10 * a + digit_value d" using Cons.prems d by simp
  moreover have "10 * a + digit_value d = 0 \<longleftrightarrow> a = 0 \<and> d = CHR ''0''"
    using Cons.prems d by auto
  ultimately show ?case
    using Cons.IH [of "10 * a + digit_value d"] Cons.prems by auto
qed

lemma decimal_value_zero:
  "list_all isdigit ds \<Longrightarrow> decimal_value ds = 0 \<longleftrightarrow> list_all (\<lambda>d. d = CHR ''0'') ds"
  using foldl_decimal_zero [of ds 0] by (simp add: decimal_value_def)

text \<open>
  Extracting a \<^verbatim>\<open>bool\<close> from text that starts with a number: the value says whether
  the number is zero.
\<close>

lemma extract_bool_number:
  assumes "list_all isspace ws" and "sg = [] \<or> sg = ''+'' \<or> sg = ''-''"
    and "ds \<noteq> []" and "list_all isdigit ds" and "takeWhile isdigit rest = []"
  shows "extract_bool (ws @ sg @ ds @ rest) = Some (\<not> list_all (\<lambda>d. d = CHR ''0'') ds)"
proof -
  obtain d ds' where ds: "ds = d # ds'" using assms(3) by (cases ds) auto
  have d: "isdigit d" using assms(4) ds by simp
  have tw: "takeWhile isdigit (ds @ rest) = ds" using assms(4,5) by (rule takeWhile_isdigit)
  have sp: "\<not> isspace CHR ''+''" "\<not> isspace CHR ''-''" by (simp_all add: isspace_def)
  from assms(2) consider "sg = []" | "sg = ''+''" | "sg = ''-''" by blast
  then have "dropWhile isspace (ws @ sg @ ds @ rest) \<noteq> []
      \<and> snd (strip_sign (dropWhile isspace (ws @ sg @ ds @ rest))) = ds @ rest"
  proof cases
    case 1
    then show ?thesis
      using dropWhile_isspace [OF assms(1) isdigit_not_isspace [OF d], of "ds' @ rest"]
        isdigit_not_sign [OF d] ds
      by (simp add: strip_sign_def)
  next
    case 2
    then show ?thesis
      using dropWhile_isspace [OF assms(1) sp(1), of "ds @ rest"]
      by (simp add: strip_sign_def)
  next
    case 3
    then show ?thesis
      using dropWhile_isspace [OF assms(1) sp(2), of "ds @ rest"]
      by (simp add: strip_sign_def)
  qed
  then show ?thesis
    using tw assms(3) decimal_value_zero [OF assms(4)]
    by (simp add: extract_bool_def Let_def split_beta)
qed

lemma extract_bool_no_number:
  assumes "list_all isspace ws" and "\<not> isspace c" and "\<not> isdigit c"
    and "c \<noteq> CHR ''+''" and "c \<noteq> CHR ''-''"
  shows "extract_bool (ws @ c # r) = Some False"
  using dropWhile_isspace [OF assms(1,2), of r] assms(3-5)
  by (simp add: extract_bool_def strip_sign_def Let_def)

subsection \<open>Absent text\<close>

text \<open>
  For \<^verbatim>\<open>bool\<close>, \<^verbatim>\<open>int\<close> and \<^verbatim>\<open>float\<close> a null pointer gives the value of the
  overload without argument.
\<close>

lemma converter_null_default:
  "converter_bool None = Inr converter0_bool"
  "converter_int None = Inr converter0_int"
  "converter_float stof None = Inr converter0_float"
  by (simp_all add: converter_bool_def converter_int_def converter_float_def
      converter0_int_def converter0_float_def)

text \<open>
  C3. The claim: for each of the four types, converting a null pointer gives the value
  of the overload without argument, the empty string for \<^verbatim>\<open>std::string\<close>. The
  specialisation for \<^verbatim>\<open>std::string\<close> does not test the pointer, as the generic
  template and the specialisations for \<^verbatim>\<open>int\<close> and \<^verbatim>\<open>float\<close> do: on a null
  pointer it constructs a string from it, and does not return the empty string.
\<close>

theorem converter_string_null:
  "converter_string None = Inl undefined_behaviour
    \<and> converter_string None \<noteq> Inr converter0_string"
  by (simp add: converter_string_def)

text \<open>
  \<open>processOptions\<close> makes that call: line 266 converts the null pointer for a
  parameter with the policy \<^verbatim>\<open>has_no_argument\<close>, here for \<^verbatim>\<open>prog -f\<close> and the
  single parameter \<^verbatim>\<open>p_string{"file", has_no_argument, 'f'}\<close>.
\<close>

lemma string_flag_undefined:
  "map_option fst (processOptions getopt_long_ref no_stof 2 [''prog'', ''-f'']
      [new_p_string ''file'' has_no_argument (of_char CHR ''f'')] getopt_start)
     = Some (Inl undefined_behaviour)"
  by code_simp

subsection \<open>Boolean text\<close>

text \<open>
  C4, as stated: the conversion to \<^verbatim>\<open>bool\<close> yields \<^verbatim>\<open>true\<close> for every text. It
  does not: the text \<^verbatim>\<open>0\<close> is read by the stream extraction of the generic
  template and gives \<^verbatim>\<open>false\<close>.
\<close>

theorem converter_bool_zero_text:
  "converter_bool (Some ''0'') = Inr False \<and> converter_bool (Some ''0'') \<noteq> Inr True"
  by (simp add: converter_bool_def extract_bool_def text_defs)

text \<open>
  C4, amended: a null pointer converts to \<^verbatim>\<open>true\<close>. A text is read as a number:
  white space, an optional sign and decimal digits convert to \<^verbatim>\<open>true\<close> exactly when
  some digit is not \<^verbatim>\<open>0\<close>, whatever follows the digits; a text whose first
  character after the white space is neither a digit nor a sign converts to
  \<^verbatim>\<open>false\<close>.
\<close>

theorem converter_bool_reads_number:
  assumes "list_all isspace ws" and "sg = [] \<or> sg = ''+'' \<or> sg = ''-''"
    and "ds \<noteq> []" and "list_all isdigit ds" and "takeWhile isdigit rest = []"
    and "\<not> isspace c" and "\<not> isdigit c" and "c \<noteq> CHR ''+''" and "c \<noteq> CHR ''-''"
  shows "converter_bool None = Inr True
    \<and> converter_bool (Some (ws @ sg @ ds @ rest)) = Inr (\<not> list_all (\<lambda>d. d = CHR ''0'') ds)
    \<and> converter_bool (Some (ws @ c # r)) = Inr False"
  using extract_bool_number [OF assms(1-5)] extract_bool_no_number [OF assms(1,6-9), of r]
  by (simp add: converter_bool_def converter0_bool_def)

text \<open>The texts \<^verbatim>\<open>" -07x"\<close> and \<^verbatim>\<open>" false"\<close>.\<close>

theorem converter_bool_reads_number_witness:
  "converter_bool None = Inr True
    \<and> converter_bool (Some '' -07x'') = Inr True
    \<and> converter_bool (Some '' false'') = Inr False"
  using converter_bool_reads_number [of "'' ''" "''-''" "''07''" "''x''" "CHR ''f''" "''alse''"]
  by (simp add: isspace_def isdigit_def)

section \<open>The tables\<close>

lemma build_tables_maps:
  "build_tables ps = (map option_entry ps, map small_opt ps, concat (map ss_piece ps))"
  by (induction ps) simp_all

lemma short_options_string_concat: "short_options_string ps = concat (map ss_piece ps)"
  by (simp add: short_options_string_def build_tables_maps)

lemma small_opts_of_map: "small_opts_of ps = map small_opt ps"
  by (simp add: small_opts_of_def build_tables_maps)

lemma long_options_map: "long_options ps = map option_entry ps @ [terminator]"
  by (simp add: long_options_def build_tables_maps)

text \<open>
  The piece of the option string for one parameter: one colon whenever the policy is
  not \<^verbatim>\<open>has_no_argument\<close>, the same for the two policies that take an argument,
  while the entry of the long option table keeps them apart.
\<close>

lemma ss_piece_cases:
  "ss_piece arg =
     (case arg_l_has_arg arg of
        has_no_argument \<Rightarrow> [small_opt arg]
      | has_optional_argument \<Rightarrow> [small_opt arg, CHR '':'']
      | has_requred_argument \<Rightarrow> [small_opt arg, CHR '':''])"
  by (simp add: ss_piece_def split: HasArg.split)

lemma option_entry_has_arg:
  "has_arg (option_entry arg) =
     (case arg_l_has_arg arg of
        has_no_argument \<Rightarrow> 0
      | has_optional_argument \<Rightarrow> 2
      | has_requred_argument \<Rightarrow> 1)"
  by (simp add: option_entry_def split: HasArg.split)

text \<open>
  C2. The claim: in the option string a short code is followed by one colon when its
  argument is required and by two when it is optional. For the vector that holds the
  single parameter \<^verbatim>\<open>p_string{"out", has_optional_argument, 'o'}\<close> the code builds
  \<^verbatim>\<open>o:\<close>, with one colon, where the claim and \<^verbatim>\<open>getopt_long\<close> want \<^verbatim>\<open>o::\<close>.
\<close>

theorem short_options_string_optional:
  "short_options_string
     [new_p_string ''out'' has_optional_argument (of_char CHR ''o'') :: int p_parameter_t]
   = ''o:''"
  by (simp add: short_options_string_concat ss_piece_def small_opt_def new_p_string_def
      new_parameter_def char_of_def)

text \<open>
  What follows from it, for the single parameter
  \<^verbatim>\<open>p_int{"level", has_optional_argument, 'l'}\<close>: \<^verbatim>\<open>prog --level\<close> is accepted, the
  argument being optional in the long option table, and \<^verbatim>\<open>prog -l\<close> is not, the
  option string asking for an argument.
\<close>

lemma optional_short_long_differ:
  "map_option fst (processOptions getopt_long_ref no_stof 2 [''prog'', ''--level'']
      [new_p_int ''level'' has_optional_argument (of_char CHR ''l'')] getopt_start)
     = Some (Inr (NoMoreArgs, 2))
   \<and> map_option fst (processOptions getopt_long_ref no_stof 2 [''prog'', ''-l'']
      [new_p_int ''level'' has_optional_argument (of_char CHR ''l'')] getopt_start)
     = Some (Inl (invalid_argument (not_defined_message (of_char CHR ''?''))))"
  by code_simp

section \<open>The scanning loop\<close>

subsection \<open>The loop and its passes\<close>

text \<open>
  The loop returns a result exactly when some number of passes ends the call: a
  property of the loop is proved on \<open>passes\<close>, by induction on the number of passes.
\<close>

lemma passes_Done_scan_loop:
  "passes k G F n os lo so st = Done r st' \<Longrightarrow> scan_loop G F n os lo so st = Some (r, st')"
proof (induction k arbitrary: st)
  case 0
  then show ?case by simp
next
  case (Suc k)
  then show ?case
    by (subst scan_loop.simps) (auto split: step.splits)
qed


lemma scan_loop_passes:
  assumes "scan_loop (G :: 's getopt_long_t) (F :: string \<Rightarrow> error + 'f::zero) n os lo so st = Some y"
  shows "\<exists>k. passes k G F n os lo so st = Done (fst y) (snd y)"
proof (rule scan_loop.raw_induct
    [where P = "\<lambda>G F n os lo so st y. \<exists>k. passes k G F n os lo so st = Done (fst y) (snd y)",
     OF _ assms])
  fix f :: "'s getopt_long_t \<Rightarrow> (string \<Rightarrow> error + 'f) \<Rightarrow> int \<Rightarrow> string \<Rightarrow> struct_option list
      \<Rightarrow> string \<Rightarrow> ('f, 's) state \<Rightarrow> ((error + options_result_t) \<times> ('f, 's) state) option"
    and G F n os lo so st y
  assume IH: "\<And>G F n os lo so st y. f G F n os lo so st = Some y
      \<Longrightarrow> \<exists>k. passes k G F n os lo so st = Done (fst y) (snd y)"
    and eq: "(case loop_body G F n os lo so st of
                Done r st' \<Rightarrow> Some (r, st')
              | Continue st' \<Rightarrow> f G F n os lo so st') = Some y"
  show "\<exists>k. passes k G F n os lo so st = Done (fst y) (snd y)"
  proof (cases "loop_body G F n os lo so st")
    case (Done r st')
    with eq have "passes (Suc 0) G F n os lo so st = Done (fst y) (snd y)" by auto
    then show ?thesis by blast
  next
    case (Continue st')
    with eq have "f G F n os lo so st' = Some y" by simp
    from IH [OF this] obtain k where "passes k G F n os lo so st' = Done (fst y) (snd y)"
      by blast
    with Continue have "passes (Suc k) G F n os lo so st = Done (fst y) (snd y)" by simp
    then show ?thesis by blast
  qed
qed

lemma passes_Suc_end:
  "passes (Suc k) G F n os lo so st =
     (case passes k G F n os lo so st of
        Done r st' \<Rightarrow> Done r st'
      | Continue st' \<Rightarrow> loop_body G F n os lo so st')"
proof (induction k arbitrary: st)
  case 0
  then show ?case by (simp split: step.splits)
next
  case (Suc k)
  show ?case
  proof (cases "loop_body G F n os lo so st")
    case (Done r st')
    then show ?thesis by simp
  next
    case (Continue st')
    then show ?thesis using Suc.IH [of st'] by simp
  qed
qed



lemma processOptions_Done:
  "after_passes k G F argc av ps s = Done r st \<Longrightarrow> processOptions G F argc av ps s = Some (r, st)"
  unfolding after_passes_def processOptions_def by (rule passes_Done_scan_loop)

lemma processOptions_passes:
  "processOptions G F argc av ps s = Some (r, st) \<Longrightarrow> \<exists>k. after_passes k G F argc av ps s = Done r st"
  unfolding after_passes_def processOptions_def by (drule scan_loop_passes) simp

lemma after_passes_Suc:
  "after_passes k G F argc av ps s = Continue st \<Longrightarrow>
   after_passes (Suc k) G F argc av ps s =
     loop_body G F argc (c_str (short_options_string ps)) (long_options ps) (small_opts_of ps) st"
  unfolding after_passes_def by (simp only: passes_Suc_end step.case)

subsection \<open>One pass\<close>

lemma visit_store_frame: "arg_frame (fst (visit_store F oa p)) = arg_frame p"
  by (cases p) (simp_all add: store_def arg_frame_def Let_def split: sum.split)

lemma visit_store_seen: "arg_l_seen (fst (visit_store F oa p)) = arg_l_seen p + 1"
  by (cases p) (simp_all add: store_def Let_def split: sum.split)


lemma visit_store_error:
  "arg_convert F (if arg_l_has_arg p \<noteq> has_no_argument then oa else None) p = Inl e \<Longrightarrow>
   snd (visit_store F oa p) = Some e \<and> arg_l_value (fst (visit_store F oa p)) = arg_l_value p"
  by (cases p) (auto simp: store_def Let_def split: sum.splits if_splits)

lemma loop_body_exhausted:
  "ret (G (getopt_state st) n (argv st) os lo) = - 1 \<Longrightarrow>
   loop_body G F n os lo so st =
     Done (Inr (NoMoreArgs, optind (G (getopt_state st) n (argv st) os lo)))
       (st\<lparr>argv := argv_after (G (getopt_state st) n (argv st) os lo),
           getopt_state := scanner (G (getopt_state st) n (argv st) os lo)\<rparr>)"
  by (simp add: loop_body_def Let_def)

lemma loop_body_unresolved:
  "0 < ret (G (getopt_state st) n (argv st) os lo) \<Longrightarrow>
   resolve (int (length (parameters st))) so (G (getopt_state st) n (argv st) os lo) = Inl e \<Longrightarrow>
   loop_body G F n os lo so st =
     Done (Inl e)
       (st\<lparr>argv := argv_after (G (getopt_state st) n (argv st) os lo),
           getopt_state := scanner (G (getopt_state st) n (argv st) os lo)\<rparr>)"
  by (simp add: loop_body_def Let_def)

lemma loop_body_match:
  "0 < ret (G (getopt_state st) n (argv st) os lo) \<Longrightarrow>
   resolve (int (length (parameters st))) so (G (getopt_state st) n (argv st) os lo) = Inr (int i) \<Longrightarrow>
   i < length (parameters st) \<Longrightarrow>
   loop_body G F n os lo so st =
     (case snd (visit_store F (optarg (G (getopt_state st) n (argv st) os lo)) (parameters st ! i)) of
        None \<Rightarrow> Continue
      | Some e \<Rightarrow> Done (Inl e))
       (st\<lparr>argv := argv_after (G (getopt_state st) n (argv st) os lo),
           getopt_state := scanner (G (getopt_state st) n (argv st) os lo),
           parameters := (parameters st)
             [i := fst (visit_store F (optarg (G (getopt_state st) n (argv st) os lo))
                (parameters st ! i))]\<rparr>)"
  by (simp add: loop_body_def Let_def split: prod.split option.split)

lemma update_frame:
  "visit_store F oa (xs ! j) = (a, eo) \<Longrightarrow> j < length xs \<Longrightarrow>
   map arg_frame (xs[j := a]) = map arg_frame xs"
  using visit_store_frame [of F oa "xs ! j"]
  by (simp add: map_update list_update_same_conv)

lemma loop_body_frame:
  "map arg_frame (parameters (state_of (loop_body G F n os lo so st)))
     = map arg_frame (parameters st)"
  by (auto simp: loop_body_def Let_def update_frame split: sum.split prod.split option.split)

lemma passes_frame:
  "map arg_frame (parameters (state_of (passes k G F n os lo so st)))
     = map arg_frame (parameters st)"
proof (induction k arbitrary: st)
  case 0
  then show ?case by simp
next
  case (Suc k)
  show ?case
  proof (cases "loop_body G F n os lo so st")
    case (Done r st')
    then show ?thesis using loop_body_frame [of G F n os lo so st] by simp
  next
    case (Continue st')
    then show ?thesis using loop_body_frame [of G F n os lo so st] Suc.IH [of st'] by simp
  qed
qed

lemma after_passes_frame:
  "map arg_frame (parameters (state_of (after_passes k G F argc av ps s))) = map arg_frame ps"
  unfolding after_passes_def using passes_frame [of k G F argc _ _ _ "\<lparr>parameters = ps, argv = av, getopt_state = s\<rparr>"]
  by simp

lemma after_passes_length:
  "after_passes k G F argc av ps s = Continue st \<Longrightarrow> length (parameters st) = length ps"
  using after_passes_frame [of k G F argc av ps s] by (auto dest: arg_cong [where f = length])

subsection \<open>Resolving a match\<close>


lemma find_index_absent: "ch \<notin> set xs \<Longrightarrow> find_index xs ch = length xs"
  by (induction xs) auto



lemma resolve_absent:
  "longindex g = None \<Longrightarrow> char_of (ret g) \<notin> set so \<Longrightarrow>
   resolve psize so g = Inl (invalid_argument (not_defined_message (ret g)))"
  by (simp add: resolve_def find_index_absent)

section \<open>Results of a call\<close>

subsection \<open>No more options\<close>

text \<open>
  C6. Whenever \<^verbatim>\<open>getopt_long\<close> returns \<open>-1\<close>, after any number of passes that
  went on, \<open>processOptions\<close> returns \<^verbatim>\<open>NoMoreArgs\<close> paired with the value of
  \<^verbatim>\<open>optind\<close> that this call of the scanner left; the parameters are as the earlier
  passes left them.
\<close>

theorem exhaustion_returns_cursor:
  assumes "after_passes k G F argc av ps s = Continue st"
    and "ret (next_call G argc ps st) = - 1"
  shows "processOptions G F argc av ps s =
     Some (Inr (NoMoreArgs, optind (next_call G argc ps st)),
           st\<lparr>argv := argv_after (next_call G argc ps st),
              getopt_state := scanner (next_call G argc ps st)\<rparr>)"
proof -
  have "after_passes (Suc k) G F argc av ps s =
      Done (Inr (NoMoreArgs, optind (next_call G argc ps st)))
        (st\<lparr>argv := argv_after (next_call G argc ps st),
            getopt_state := scanner (next_call G argc ps st)\<rparr>)"
    using assms(2) unfolding after_passes_Suc [OF assms(1)] next_call_def
    by (rule loop_body_exhausted)
  then show ?thesis by (rule processOptions_Done)
qed

text \<open>
  The instance the claim names: for \<^verbatim>\<open>prog -e -- residual1 residual2\<close> and the table
  of \<^verbatim>\<open>main.cpp\<close> the call returns the index 3, where \<^verbatim>\<open>residual1\<close> is, and
  \<^verbatim>\<open>enable\<close> has been seen once.
\<close>

theorem exhaustion_returns_cursor_witness:
  "map_option fst (processOptions getopt_long_ref no_stof 5
      [''prog'', ''-e'', ''--'', ''residual1'', ''residual2''] parameter getopt_start)
     = Some (Inr (NoMoreArgs, 3))
   \<and> map_option (\<lambda>y. argv (snd y) ! 3) (processOptions getopt_long_ref no_stof 5
      [''prog'', ''-e'', ''--'', ''residual1'', ''residual2''] parameter getopt_start)
     = Some ''residual1''
   \<and> map_option (\<lambda>y. arg_l_seen (parameters (snd y) ! 0)) (processOptions getopt_long_ref no_stof 5
      [''prog'', ''-e'', ''--'', ''residual1'', ''residual2''] parameter getopt_start)
     = Some 1"
proof -
  let ?av = "[''prog'', ''-e'', ''--'', ''residual1'', ''residual2'']"
  let ?st = "state_of (after_passes 1 getopt_long_ref no_stof 5 ?av parameter getopt_start)"
  have h1: "after_passes 1 getopt_long_ref no_stof 5 ?av parameter getopt_start = Continue ?st"
    by code_simp
  have h2: "ret (next_call getopt_long_ref 5 (parameter :: int p_parameter_t list) ?st) = - 1"
    by code_simp
  show ?thesis
    unfolding exhaustion_returns_cursor [OF h1 h2] by code_simp
qed


lemma after_passes_resolve:
  assumes "after_passes k G F argc av ps s = Continue st"
    and "0 < ret (next_call G argc ps st)"
    and "resolve (int (length ps)) (small_opts_of ps) (next_call G argc ps st) = Inr (int i)"
    and "i < length ps"
  shows "after_passes (Suc k) G F argc av ps s =
     (case snd (visit_store F (optarg (next_call G argc ps st)) (parameters st ! i)) of
        None \<Rightarrow> Continue
      | Some e \<Rightarrow> Done (Inl e))
       (st\<lparr>argv := argv_after (next_call G argc ps st),
           getopt_state := scanner (next_call G argc ps st),
           parameters := (parameters st)
             [i := fst (visit_store F (optarg (next_call G argc ps st)) (parameters st ! i))]\<rparr>)"
  using assms(2-4) after_passes_length [OF assms(1)]
  unfolding after_passes_Suc [OF assms(1)] next_call_def
  by (intro loop_body_match) simp_all

lemma after_passes_unresolved:
  assumes "after_passes k G F argc av ps s = Continue st"
    and "0 < ret (next_call G argc ps st)"
    and "resolve (int (length ps)) (small_opts_of ps) (next_call G argc ps st) = Inl e"
  shows "after_passes (Suc k) G F argc av ps s =
     Done (Inl e) (st\<lparr>argv := argv_after (next_call G argc ps st),
           getopt_state := scanner (next_call G argc ps st)\<rparr>)"
  using assms(2-3) after_passes_length [OF assms(1)]
  unfolding after_passes_Suc [OF assms(1)] next_call_def
  by (intro loop_body_unresolved) simp_all

subsection \<open>A returned key that no parameter has\<close>

text \<open>
  C1, as stated: an option that is not in the table makes the call fail with an error
  that differs from the one raised when the scanner returns a key that no parameter
  has. It is the same error: for \<^verbatim>\<open>prog --bogus\<close> the reference scanner returns
  \<^verbatim>\<open>'?'\<close>, and the call throws what it throws when a scanner returns \<^verbatim>\<open>'?'\<close>
  for an argument vector without any option.
\<close>

theorem unrecognized_option_same_error:
  "map_option fst (processOptions getopt_long_ref no_stof 2 [''prog'', ''--bogus''] parameter
      getopt_start)
     = Some (Inl (invalid_argument (not_defined_message (of_char CHR ''?''))))
   \<and> map_option fst (processOptions (stray_scanner (of_char CHR ''?'')) no_stof 1 [''prog'']
      parameter ())
     = Some (Inl (invalid_argument (not_defined_message (of_char CHR ''?''))))"
  by code_simp

text \<open>
  C1, amended: when the scanner returns a positive value without a table index and
  the character of that value is the short code of no parameter, which is the case for
  the \<^verbatim>\<open>'?'\<close> of an unrecognized option unless a parameter has that code, the call
  throws \<^verbatim>\<open>std::invalid_argument\<close> with the text of line 249, and leaves the
  parameters as the earlier passes left them. This is the only error the code has for
  both situations.
\<close>

theorem absent_key_error:
  assumes "after_passes k G F argc av ps s = Continue st"
    and "0 < ret (next_call G argc ps st)"
    and "longindex (next_call G argc ps st) = None"
    and "char_of (ret (next_call G argc ps st)) \<notin> set (map small_opt ps)"
  shows "processOptions G F argc av ps s =
     Some (Inl (invalid_argument (not_defined_message (ret (next_call G argc ps st)))),
           st\<lparr>argv := argv_after (next_call G argc ps st),
              getopt_state := scanner (next_call G argc ps st)\<rparr>)"
proof -
  have "resolve (int (length ps)) (small_opts_of ps) (next_call G argc ps st)
      = Inl (invalid_argument (not_defined_message (ret (next_call G argc ps st))))"
    using assms(3,4) by (simp add: resolve_absent small_opts_of_map)
  from after_passes_unresolved [OF assms(1,2) this] show ?thesis
    by (rule processOptions_Done)
qed

text \<open>The call for \<^verbatim>\<open>prog --bogus\<close> and the table of \<^verbatim>\<open>main.cpp\<close>.\<close>

theorem absent_key_error_witness:
  "processOptions getopt_long_ref no_stof 2 [''prog'', ''--bogus''] parameter getopt_start
     = Some (Inl (invalid_argument (not_defined_message (of_char CHR ''?''))),
         \<lparr>parameters = parameter, argv = [''prog'', ''--bogus''],
          getopt_state = getopt_start\<lparr>g_optind := 2, first_nonopt := 1, last_nonopt := 1,
            initialized := True\<rparr>\<rparr>)"
proof -
  let ?st = "\<lparr>parameters = parameter :: int p_parameter_t list, argv = [''prog'', ''--bogus''],
    getopt_state = getopt_start\<rparr>"
  have h1: "after_passes 0 getopt_long_ref no_stof 2 [''prog'', ''--bogus''] parameter getopt_start
      = Continue ?st"
    by (simp add: after_passes_def)
  have h2: "0 < ret (next_call getopt_long_ref 2 parameter ?st)" by code_simp
  have h3: "longindex (next_call getopt_long_ref 2 parameter ?st) = None" by code_simp
  have h4: "char_of (ret (next_call getopt_long_ref 2 parameter ?st))
      \<notin> set (map small_opt (parameter :: int p_parameter_t list))" by code_simp
  show ?thesis
    unfolding absent_key_error [OF h1 h2 h3 h4] by code_simp
qed


subsection \<open>Conversion errors\<close>

lemma stoi_no_number:
  assumes "list_all isspace ws" and "\<not> isspace c" and "\<not> isdigit c"
    and "c \<noteq> CHR ''+''" and "c \<noteq> CHR ''-''"
  shows "stoi (ws @ c # r) = Inl (invalid_argument ''stoi'')"
  using dropWhile_isspace [OF assms(1,2), of r] assms(3-5)
  by (simp add: stoi_def strip_sign_def Let_def)




subsection \<open>A match\<close>




subsection \<open>What a call leaves alone\<close>

lemma frame_fields:
  assumes "map arg_frame xs = map arg_frame ys"
  shows "length xs = length ys" and "map arg_index xs = map arg_index ys"
    and "map arg_l_name xs = map arg_l_name ys" and "map arg_l_has_arg xs = map arg_l_has_arg ys"
    and "map arg_l_val xs = map arg_l_val ys" and "map arg_l_flag xs = map arg_l_flag ys"
    and "map arg_l_incomplete_conv xs = map arg_l_incomplete_conv ys"
proof -
  show len: "length xs = length ys" using assms by (rule map_eq_imp_length_eq)
  have nth: "arg_frame (xs ! i) = arg_frame (ys ! i)" if "i < length xs" for i
    using that len arg_cong [OF assms, of "\<lambda>zs. zs ! i"] by simp
  show "map arg_index xs = map arg_index ys" "map arg_l_name xs = map arg_l_name ys"
    "map arg_l_has_arg xs = map arg_l_has_arg ys" "map arg_l_val xs = map arg_l_val ys"
    "map arg_l_flag xs = map arg_l_flag ys"
    "map arg_l_incomplete_conv xs = map arg_l_incomplete_conv ys"
    using len nth by (auto simp: list_eq_iff_nth_eq arg_frame_def)
qed

text \<open>
  C8. Whatever a call returns or throws, the vector it leaves has the length of the
  one it was given and, position by position, the same alternative, name, short code
  and argument policy (and, by \<open>after_passes_frame\<close>, the same \<^verbatim>\<open>l_flag\<close> and
  \<^verbatim>\<open>l_incomplete_conv\<close>): only \<^verbatim>\<open>l_seen\<close> and \<^verbatim>\<open>l_value\<close> change. The
  function keeps nothing between calls: what a call does is determined by its
  arguments and the state of the scanner, and besides its result it leaves only the
  parameters, the argument vector and the scanner's own state.
\<close>

theorem fixed_fields_unchanged:
  assumes "processOptions G F argc av ps s = Some (r, st')"
    and "r \<noteq> Inl undefined_behaviour"
  shows "length (parameters st') = length ps
    \<and> map arg_l_name (parameters st') = map arg_l_name ps
    \<and> map arg_l_val (parameters st') = map arg_l_val ps
    \<and> map arg_l_has_arg (parameters st') = map arg_l_has_arg ps
    \<and> map arg_index (parameters st') = map arg_index ps"
proof -
  from processOptions_passes [OF assms(1)] obtain k
    where "after_passes k G F argc av ps s = Done r st'" by blast
  with after_passes_frame [of k G F argc av ps s]
  have "map arg_frame (parameters st') = map arg_frame ps" by simp
  from frame_fields [OF this] show ?thesis by simp
qed

text \<open>The call for \<^verbatim>\<open>prog -e --start 42\<close> and the table of \<^verbatim>\<open>main.cpp\<close>.\<close>

theorem fixed_fields_unchanged_witness:
  "map_option (\<lambda>y. map arg_l_name (parameters (snd y)))
     (processOptions getopt_long_ref no_stof 4 [''prog'', ''-e'', ''--start'', ''42''] parameter
        getopt_start)
     = Some [''enable'', ''start'', ''pi'', ''file'']
   \<and> map_option (\<lambda>y. map arg_l_val (parameters (snd y)))
     (processOptions getopt_long_ref no_stof 4 [''prog'', ''-e'', ''--start'', ''42''] parameter
        getopt_start)
     = Some [101, 115, 112, 102]
   \<and> map_option (\<lambda>y. map arg_l_seen (parameters (snd y)))
     (processOptions getopt_long_ref no_stof 4 [''prog'', ''-e'', ''--start'', ''42''] parameter
        getopt_start)
     = Some [1, 1, 0, 0]"
proof -
  let ?call = "processOptions getopt_long_ref no_stof 4 [''prog'', ''-e'', ''--start'', ''42'']
    (parameter :: int p_parameter_t list) getopt_start"
  have h1: "?call = Some (fst (the ?call), snd (the ?call))" by code_simp
  have h2: "fst (the ?call) \<noteq> Inl undefined_behaviour" by code_simp
  have names: "map arg_l_name (parameter :: int p_parameter_t list)
      = [''enable'', ''start'', ''pi'', ''file'']" by code_simp
  have vals: "map arg_l_val (parameter :: int p_parameter_t list) = [101, 115, 112, 102]"
    by code_simp
  have seen: "map_option (\<lambda>y. map arg_l_seen (parameters (snd y))) ?call = Some [1, 1, 0, 0]"
    by code_simp
  from fixed_fields_unchanged [OF h1 h2] names vals
  have "map arg_l_name (parameters (snd (the ?call))) = [''enable'', ''start'', ''pi'', ''file'']"
    and "map arg_l_val (parameters (snd (the ?call))) = [101, 115, 112, 102]" by simp_all
  then have "map_option (\<lambda>y. map arg_l_name (parameters (snd y))) ?call
      = Some [''enable'', ''start'', ''pi'', ''file'']"
    and "map_option (\<lambda>y. map arg_l_val (parameters (snd y))) ?call = Some [101, 115, 112, 102]"
    by (subst h1, simp)+
  with seen show ?thesis by simp
qed


subsection \<open>The state at a conversion error\<close>

text \<open>
  C9. When the conversion for a matched parameter throws, the call ends with that
  exception and the vector it leaves differs from the one before the pass in that
  parameter only, whose \<^verbatim>\<open>l_seen\<close> is one more and whose \<^verbatim>\<open>l_value\<close> is what it
  was; the updates of the earlier passes are in the vector before the pass, and stay.
\<close>

theorem error_after_increment:
  assumes "after_passes k G F argc av ps s = Continue st"
    and "0 < ret (next_call G argc ps st)"
    and "resolve (int (length ps)) (small_opts_of ps) (next_call G argc ps st) = Inr (int i)"
    and "i < length ps"
    and "arg_convert F (if arg_l_has_arg (parameters st ! i) \<noteq> has_no_argument
           then optarg (next_call G argc ps st) else None) (parameters st ! i) = Inl e"
    and "e \<noteq> undefined_behaviour"
  shows "\<exists>arg. processOptions G F argc av ps s =
        Some (Inl e, st\<lparr>argv := argv_after (next_call G argc ps st),
          getopt_state := scanner (next_call G argc ps st),
          parameters := (parameters st)[i := arg]\<rparr>)
      \<and> arg_l_seen arg = arg_l_seen (parameters st ! i) + 1
      \<and> arg_l_value arg = arg_l_value (parameters st ! i)
      \<and> arg_frame arg = arg_frame (parameters st ! i)"
proof -
  let ?g = "next_call G argc ps st"
  from after_passes_resolve [OF assms(1-4)] visit_store_error [OF assms(5)]
  have "after_passes (Suc k) G F argc av ps s =
      Done (Inl e) (st\<lparr>argv := argv_after ?g, getopt_state := scanner ?g,
        parameters := (parameters st)[i := fst (visit_store F (optarg ?g) (parameters st ! i))]\<rparr>)"
    by simp
  then have "processOptions G F argc av ps s =
      Some (Inl e, st\<lparr>argv := argv_after ?g, getopt_state := scanner ?g,
        parameters := (parameters st)[i := fst (visit_store F (optarg ?g) (parameters st ! i))]\<rparr>)"
    by (rule processOptions_Done)
  then show ?thesis
    using visit_store_error [OF assms(5)] visit_store_seen visit_store_frame by blast
qed

text \<open>
  The call for \<^verbatim>\<open>prog -e --start abc\<close>: \<^verbatim>\<open>enable\<close> keeps its update,
  \<^verbatim>\<open>start\<close> has been counted and keeps the value 0.
\<close>

theorem error_after_increment_witness:
  "map_option fst (processOptions getopt_long_ref no_stof 4
       [''prog'', ''-e'', ''--start'', ''abc''] parameter getopt_start)
     = Some (Inl (invalid_argument ''stoi''))
   \<and> map_option (\<lambda>y. map arg_l_seen (parameters (snd y))) (processOptions getopt_long_ref no_stof 4
       [''prog'', ''-e'', ''--start'', ''abc''] parameter getopt_start)
     = Some [1, 1, 0, 0]
   \<and> map_option (\<lambda>y. map arg_l_value (parameters (snd y))) (processOptions getopt_long_ref no_stof 4
       [''prog'', ''-e'', ''--start'', ''abc''] parameter getopt_start)
     = Some [v_bool True, v_int 0, v_float 0, v_string []]"
proof -
  let ?av = "[''prog'', ''-e'', ''--start'', ''abc'']"
  let ?st = "state_of (after_passes 1 getopt_long_ref no_stof 4 ?av parameter getopt_start)"
  let ?g = "next_call getopt_long_ref 4 (parameter :: int p_parameter_t list) ?st"
  have h1: "after_passes 1 getopt_long_ref no_stof 4 ?av parameter getopt_start = Continue ?st"
    by code_simp
  have h2: "0 < ret ?g" by code_simp
  have h3: "resolve (int (length (parameter :: int p_parameter_t list))) (small_opts_of parameter) ?g
      = Inr (int 1)" by code_simp
  have h4: "1 < length (parameter :: int p_parameter_t list)" by code_simp
  have h5: "arg_convert no_stof (if arg_l_has_arg (parameters ?st ! 1) \<noteq> has_no_argument
           then optarg ?g else None) (parameters ?st ! 1) = Inl (invalid_argument ''stoi'')"
    by code_simp
  have h6: "invalid_argument ''stoi'' \<noteq> undefined_behaviour" by simp
  have before: "map arg_l_seen (parameters ?st) = [1, 0, 0, 0]"
    "map arg_l_value (parameters ?st) = [v_bool True, v_int 0, v_float 0, v_string []]"
    by code_simp+
  then have len: "length (parameters ?st) = 4" by (auto dest: arg_cong [where f = length])
  from error_after_increment [OF h1 h2 h3 h4 h5 h6] obtain arg where
    call: "processOptions getopt_long_ref no_stof 4 ?av parameter getopt_start =
        Some (Inl (invalid_argument ''stoi''), ?st\<lparr>argv := argv_after ?g,
          getopt_state := scanner ?g, parameters := (parameters ?st)[1 := arg]\<rparr>)"
    and arg: "arg_l_seen arg = arg_l_seen (parameters ?st ! 1) + 1"
      "arg_l_value arg = arg_l_value (parameters ?st ! 1)"
    by blast
  have nth: "arg_l_seen (parameters ?st ! 1) = 0" "arg_l_value (parameters ?st ! 1) = v_int 0"
    using before len by (auto simp: list_eq_iff_nth_eq)
  have "map arg_l_seen ((parameters ?st)[1 := arg]) = [1, 1, 0, 0]"
    using before(1) arg(1) nth(1) by (simp add: map_update)
  moreover have "map arg_l_value ((parameters ?st)[1 := arg])
      = [v_bool True, v_int 0, v_float 0, v_string []]"
    using before(2) arg(2) nth(2) by (simp add: map_update)
  ultimately show ?thesis unfolding call by simp
qed

subsection \<open>Parameters that share a short code\<close>




end
